theory Spec2Isabelle
  imports Main
begin

section \<open>PivotPath career advisor: a shallow embedding of app.py\<close>

text \<open>
  The script app.py runs top to bottom on every submission: it loads optional artifacts,
  reads the sidebar inputs, validates them, resolves a salary, previews the career
  model's suggestion and looks up role content. Each block is embedded as a function of
  the globals it reads. Python exceptions are values of type \<open>exn\<close>; a computation that
  may raise returns \<open>exn + 'a\<close> with \<open>Inl\<close> for the exception. Only subclasses of
  \<open>Exception\<close> are modelled, so every \<open>except Exception\<close> clause of the source
  catches every \<open>exn\<close>.
\<close>

subsection \<open>Exceptions\<close>

datatype exn =
    NameError string
  | ModuleNotFoundError string
  | KeyError string
  | OverflowError
  | ValueError
  | OtherError string

definition bind_exn :: "exn + 'a \<Rightarrow> ('a \<Rightarrow> exn + 'b) \<Rightarrow> exn + 'b" where
  "bind_exn m f = (case m of Inl e \<Rightarrow> Inl e | Inr x \<Rightarrow> f x)"

subsection \<open>Python floats\<close>

text \<open>
  A Python float is an IEEE 754 binary64 value. A finite one is kept as its integer
  mantissa \<open>m\<close> and exponent \<open>e\<close>, denoting \<open>m * 2^e\<close>, in the format's own
  normal form: \<open>2^52 \<le> |m| < 2^53\<close> with \<open>-1074 \<le> e \<le> 971\<close> for a normal
  number, \<open>|m| < 2^52\<close> with \<open>e = -1074\<close> for a subnormal one and for zero.
  Arithmetic computes the exact result as a ratio of integers and rounds it to the
  nearest representable value, ties to even, with gradual underflow and with overflow
  to an infinity. The sign of a zero is not kept: no operation of the script depends
  on it.
\<close>

datatype pyfloat = Fin int int | PosInf | NegInf | NaN

text \<open>The number of binary digits of a positive integer.\<close>

function bitlen :: "int \<Rightarrow> int" where
  "bitlen n = (if n \<le> 0 then 0 else 1 + bitlen (n div 2))"
  by pat_completeness auto
termination
  by (relation "measure nat") auto

declare bitlen.simps [simp del]

text \<open>For \<open>0 < n\<close> and \<open>0 < d\<close>, the exponent \<open>k\<close> with \<open>2^k \<le> n / d < 2^(k+1)\<close>.\<close>

definition floor_log2_ratio :: "int \<Rightarrow> int \<Rightarrow> int" where
  "floor_log2_ratio n d =
     (let k = bitlen n - bitlen d
      in if (if 0 \<le> k then d * 2 ^ nat k \<le> n else d \<le> n * 2 ^ nat (- k))
         then k else k - 1)"

text \<open>The integer nearest to \<open>num / den\<close> for \<open>0 < den\<close>, ties to the even one.\<close>

definition round_half_even_div :: "int \<Rightarrow> int \<Rightarrow> int" where
  "round_half_even_div num den =
     (let q = num div den; r = num mod den
      in if 2 * r < den then q
         else if den < 2 * r then q + 1
         else if even q then q else q + 1)"

definition inf_of_sign :: "bool \<Rightarrow> pyfloat" where
  "inf_of_sign positive = (if positive then PosInf else NegInf)"

text \<open>The double nearest to \<open>n / d\<close>, for \<open>0 < d\<close>.\<close>

definition round_ratio :: "int \<Rightarrow> int \<Rightarrow> pyfloat" where
  "round_ratio n d =
     (if n = 0 then Fin 0 (- 1074)
      else let e = max (floor_log2_ratio \<bar>n\<bar> d) (- 1022) - 52;
               m = round_half_even_div (n * 2 ^ nat (- e)) (d * 2 ^ nat e);
               m' = (if \<bar>m\<bar> = 2 ^ 53 then m div 2 else m);
               e' = (if \<bar>m\<bar> = 2 ^ 53 then e + 1 else e)
           in if 971 < e' then inf_of_sign (0 < n) else Fin m' e')"

text \<open>The double nearest to \<open>m * 2^e\<close>.\<close>

definition round_dyadic :: "int \<Rightarrow> int \<Rightarrow> pyfloat" where
  "round_dyadic m e = round_ratio (m * 2 ^ nat e) (2 ^ nat (- e))"

text \<open>A float literal of the source denotes the double nearest to its decimal value.\<close>

definition float_literal :: "int \<Rightarrow> int \<Rightarrow> pyfloat" where
  "float_literal n d = round_ratio n d"

fun fmul :: "pyfloat \<Rightarrow> pyfloat \<Rightarrow> pyfloat" where
  "fmul NaN _ = NaN"
| "fmul _ NaN = NaN"
| "fmul (Fin m1 e1) (Fin m2 e2) = round_dyadic (m1 * m2) (e1 + e2)"
| "fmul (Fin m _) PosInf = (if m = 0 then NaN else inf_of_sign (0 < m))"
| "fmul (Fin m _) NegInf = (if m = 0 then NaN else inf_of_sign (m < 0))"
| "fmul PosInf (Fin m _) = (if m = 0 then NaN else inf_of_sign (0 < m))"
| "fmul NegInf (Fin m _) = (if m = 0 then NaN else inf_of_sign (m < 0))"
| "fmul PosInf PosInf = PosInf"
| "fmul NegInf NegInf = PosInf"
| "fmul PosInf NegInf = NegInf"
| "fmul NegInf PosInf = NegInf"

fun fadd :: "pyfloat \<Rightarrow> pyfloat \<Rightarrow> pyfloat" where
  "fadd NaN _ = NaN"
| "fadd _ NaN = NaN"
| "fadd (Fin m1 e1) (Fin m2 e2) =
     (let e = min e1 e2
      in round_dyadic (m1 * 2 ^ nat (e1 - e) + m2 * 2 ^ nat (e2 - e)) e)"
| "fadd PosInf NegInf = NaN"
| "fadd NegInf PosInf = NaN"
| "fadd PosInf _ = PosInf"
| "fadd NegInf _ = NegInf"
| "fadd _ PosInf = PosInf"
| "fadd _ NegInf = NegInf"

text \<open>
  An \<open>int\<close> operand of a mixed operation is converted first; the conversion raises
  OverflowError when the integer is too large for a float.
\<close>

definition float_of_int :: "int \<Rightarrow> exn + pyfloat" where
  "float_of_int i =
     (case round_ratio i 1 of Fin m e \<Rightarrow> Inr (Fin m e) | _ \<Rightarrow> Inl OverflowError)"

definition int_mul_float :: "int \<Rightarrow> pyfloat \<Rightarrow> exn + pyfloat" where
  "int_mul_float i x = bind_exn (float_of_int i) (\<lambda>a. Inr (fmul a x))"

definition int_add_float :: "int \<Rightarrow> pyfloat \<Rightarrow> exn + pyfloat" where
  "int_add_float i x = bind_exn (float_of_int i) (\<lambda>a. Inr (fadd a x))"

text \<open>\<open>int(x)\<close> on a float truncates towards zero and raises on an infinity or a NaN.\<close>

fun int_of_float :: "pyfloat \<Rightarrow> exn + int" where
  "int_of_float (Fin m e) =
     Inr (if 0 \<le> e then m * 2 ^ nat e else sgn m * (\<bar>m\<bar> div 2 ^ nat (- e)))"
| "int_of_float PosInf = Inl OverflowError"
| "int_of_float NegInf = Inl OverflowError"
| "int_of_float NaN = Inl ValueError"

subsection \<open>Dictionaries\<close>

text \<open>
  A dict is an association list with distinct keys in insertion order. Assigning to a
  key that is present replaces its value in place; a new key goes to the end.
\<close>

fun dict_set :: "('k \<times> 'v) list \<Rightarrow> 'k \<Rightarrow> 'v \<Rightarrow> ('k \<times> 'v) list" where
  "dict_set [] k v = [(k, v)]"
| "dict_set ((k', v') # d) k v =
     (if k' = k then (k, v) # d else (k', v') # dict_set d k v)"

definition dict_get :: "('k \<times> 'v) list \<Rightarrow> 'k \<Rightarrow> 'v \<Rightarrow> 'v" where
  "dict_get d k dflt = (case map_of d k of Some v \<Rightarrow> v | None \<Rightarrow> dflt)"

definition dict_index :: "(string \<times> 'v) list \<Rightarrow> string \<Rightarrow> exn + 'v" where
  "dict_index d k = (case map_of d k of Some v \<Rightarrow> Inr v | None \<Rightarrow> Inl (KeyError k))"

definition dict_setdefault :: "('k \<times> 'v) list \<Rightarrow> 'k \<Rightarrow> 'v \<Rightarrow> ('k \<times> 'v) list" where
  "dict_setdefault d k v = (case map_of d k of Some _ \<Rightarrow> d | None \<Rightarrow> d @ [(k, v)])"

subsection \<open>The heuristic salary (lines 376 to 391)\<close>

definition BASE_BY_ROLE_INR :: "(string \<times> int) list" where
  "BASE_BY_ROLE_INR =
     [(''Data Scientist'', 900000),
      (''Frontend Engineer'', 700000),
      (''System Administrator'', 500000),
      (''UI/UX Designer'', 600000),
      (''Product Manager'', 1000000),
      (''Junior Data Analyst'', 350000),
      (''Frontend Developer'', 650000),
      (''Technical Support Engineer'', 300000),
      (''Junior UI/UX Designer'', 350000),
      (''Marketing Analyst'', 350000)]"

definition base_salary :: "string \<Rightarrow> int" where
  "base_salary target_job = dict_get BASE_BY_ROLE_INR target_job 450000"

text \<open>
  \<open>int(base * (1 + min(years_exp, 10) * 0.06))\<close>, evaluated inside out as Python
  does: int times float, int plus float, int times float, then truncation.
\<close>

definition experience_adjust :: "int \<Rightarrow> int \<Rightarrow> exn + int" where
  "experience_adjust base years_exp =
     bind_exn (int_mul_float (min years_exp 10) (float_literal 6 100)) (\<lambda>t.
     bind_exn (int_add_float 1 t) (\<lambda>f.
     bind_exn (int_mul_float base f) int_of_float))"

definition heuristic_salary :: "string \<Rightarrow> int \<Rightarrow> exn + int" where
  "heuristic_salary target_job years_exp = experience_adjust (base_salary target_job) years_exp"

subsection \<open>Artifacts\<close>

text \<open>
  The models, the scaler and the encoders are opaque objects read from disk. An object
  is modelled by what the script does with it: its truth test (\<open>if obj:\<close>) and the
  outcome of each method call, which is a value or an exception. A value returned by
  an artifact is in turn known only through \<open>float(v)\<close>, \<open>int(v)\<close> and \<open>str(v)\<close>.
\<close>

record pyval =
  to_float :: "exn + pyfloat"
  to_int :: "exn + int"
  to_str :: string

text \<open>
  The dict \<open>X\<close> of the builder binds feature names to Python ints; the one-row
  DataFrame made from it has one cell per key, and a scaler may replace the cells.
\<close>

type_synonym row = "(string \<times> int) list"

datatype cell = IntCell int | FloatCell pyfloat

type_synonym frame = "(string \<times> cell) list"

text \<open>
  A model or a scaler. \<open>truthy a\<close> is the outcome of \<open>bool(a)\<close>, which runs the
  object's own \<open>__bool__\<close> or \<open>__len__\<close> and may raise (an ensemble that was never
  fitted does); the script tests the truth of these objects outside every \<open>try\<close>
  (lines 55, 213 to 215, 277 to 279, 294 and 405) and inside one (lines 358 and 420).
  \<open>predict0 m df\<close> is \<open>m.predict(df)[0]\<close>; \<open>transform_frame sc df\<close> is the
  body of the scaling \<open>try\<close> block, which ends with the scaled frame or raises.
\<close>

record artifact =
  truthy :: "exn + bool"
  predict0 :: "frame \<Rightarrow> exn + pyval"
  transform_frame :: "frame \<Rightarrow> exn + frame"

text \<open>
  An encoder. \<open>transform0 enc s\<close> is \<open>enc.transform([s])[0]\<close> and
  \<open>inverse_transform0 enc i\<close> is \<open>enc.inverse_transform([i])[0]\<close>. Encoders are
  consulted only inside the \<open>try\<close> blocks of the salary and the career section. The
  truth value of an encoder is taken as a plain boolean: an encoder whose truth test
  raises is outside the model.
\<close>

record encoder =
  enc_truthy :: bool
  transform0 :: "string \<Rightarrow> exn + pyval"
  inverse_transform0 :: "int \<Rightarrow> exn + string"

text \<open>
  The module globals bound by lines 53 to 71. A feature schema is the list of feature
  names read from its JSON file; other JSON documents are outside the model.
\<close>

record registry =
  salary_model :: "artifact option"
  career_model :: "artifact option"
  scaler :: "artifact option"
  encoders :: "(string \<times> encoder) list"
  feat_salary :: "string list option"
  feat_career :: "string list option"

text \<open>The truth test of a global that holds \<open>None\<close> or an object.\<close>

definition obj_truthy :: "artifact option \<Rightarrow> exn + bool" where
  "obj_truthy obj = (case obj of None \<Rightarrow> Inr False | Some a \<Rightarrow> truthy a)"

definition list_truthy :: "'a list option \<Rightarrow> bool" where
  "list_truthy xs = (case xs of None \<Rightarrow> False | Some ys \<Rightarrow> ys \<noteq> [])"

subsection \<open>Loading the artifacts (lines 24 to 71)\<close>

text \<open>
  The world outside the script: whether \<open>import joblib\<close> succeeds, and what
  \<open>joblib.load\<close> and \<open>json.load\<close> (with the \<open>open\<close> before it) do on each path.
\<close>

record world =
  joblib_importable :: bool
  joblib_load :: "string \<Rightarrow> exn + artifact"
  json_load :: "string \<Rightarrow> exn + string list"

text \<open>
  The source defines \<open>safe_load_pickle\<close> twice; the second definition (lines 33 to 38,
  through joblib) replaces the first before any call. Its \<open>import joblib\<close> stands
  before the \<open>try\<close>.
\<close>

definition safe_load_pickle :: "world \<Rightarrow> string \<Rightarrow> exn + artifact option" where
  "safe_load_pickle w path =
     (if joblib_importable w
      then Inr (case joblib_load w path of Inl _ \<Rightarrow> None | Inr a \<Rightarrow> Some a)
      else Inl (ModuleNotFoundError ''joblib''))"

definition load_json :: "world \<Rightarrow> string \<Rightarrow> string list option" where
  "load_json w path = (case json_load w path of Inl _ \<Rightarrow> None | Inr j \<Rightarrow> Some j)"

text \<open>
  Lines 55 and 66 call \<open>safe_load_joblib\<close>. No statement of the module binds that
  name, so evaluating it raises NameError before any argument is looked at.
\<close>

definition safe_load_joblib :: "world \<Rightarrow> string \<Rightarrow> exn + 'a option" where
  "safe_load_joblib w path = Inl (NameError ''safe_load_joblib'')"

text \<open>\<open>s.replace(pat, "")\<close> for a non-empty \<open>pat\<close>: every occurrence, left to right.\<close>

function str_remove :: "string \<Rightarrow> string \<Rightarrow> string" where
  "str_remove pat s =
     (if pat = [] \<or> s = [] then s
      else if take (length pat) s = pat then str_remove pat (drop (length pat) s)
      else hd s # str_remove pat (tl s))"
  by pat_completeness auto
termination
  by (relation "measure (\<lambda>(pat, s). length s)") auto

declare str_remove.simps [simp del]

definition encoder_files :: "string list" where
  "encoder_files =
     [''current_job_title_encoder.pkl'',
      ''target_job_title_encoder.pkl'',
      ''education_level_encoder.pkl'',
      ''portfolio_strength_encoder.pkl'',
      ''certifications_encoder.pkl'',
      ''language_proficiency_encoder.pkl'',
      ''remote_work_preference_encoder.pkl'']"

fun load_encoders ::
  "world \<Rightarrow> string list \<Rightarrow> (string \<times> encoder) list \<Rightarrow> exn + (string \<times> encoder) list" where
  "load_encoders w [] encs = Inr encs"
| "load_encoders w (name # names) encs =
     bind_exn (safe_load_joblib w name) (\<lambda>enc.
       load_encoders w names
         (case enc of
            None \<Rightarrow> encs
          | Some e \<Rightarrow> dict_set encs (str_remove ''_encoder.pkl'' name) e))"

text \<open>\<open>a or b\<close> tests the truth of \<open>a\<close> and evaluates \<open>b\<close> only when \<open>a\<close> is falsy.\<close>

definition load_artifacts :: "world \<Rightarrow> exn + registry" where
  "load_artifacts w =
     bind_exn (safe_load_pickle w ''salary_model.pkl'') (\<lambda>sm.
     bind_exn (safe_load_pickle w ''career_recommender.pkl'') (\<lambda>cm.
     bind_exn (safe_load_pickle w ''scaler.pkl'') (\<lambda>s1.
     bind_exn (obj_truthy s1) (\<lambda>found.
     bind_exn (if found then Inr s1 else safe_load_joblib w ''scaler.pkl'') (\<lambda>sc.
     bind_exn (load_encoders w encoder_files []) (\<lambda>encs.
       Inr \<lparr>salary_model = sm, career_model = cm, scaler = sc, encoders = encs,
            feat_salary = load_json w ''feature_columns_salary.json'',
            feat_career = load_json w ''feature_columns_career.json''\<rparr>))))))"

subsection \<open>The profile and its validation (lines 174 to 262)\<close>

record profile =
  current_job :: string
  target_job :: string
  education :: string
  portfolio_strength :: string
  certifications :: string
  language_proficiency :: string
  remote_pref :: string
  years_exp :: int
  projects_completed :: int
  comm_rating :: int
  skills_text :: string

definition validation_errors :: "profile \<Rightarrow> string list" where
  "validation_errors p =
     (if current_job p = ''Select current job'' then [''Choose your current job.''] else []) @
     (if target_job p = ''Select target job'' then [''Choose your target job.''] else []) @
     (if education p = ''Select education'' then [''Select your education level.''] else []) @
     (if portfolio_strength p = ''Select...'' then [''Select portfolio strength.''] else []) @
     (if language_proficiency p = ''Select...'' then [''Select language proficiency.''] else []) @
     (if remote_pref p = ''Select...'' then [''Select remote preference.''] else [])"

text \<open>Lines 251 and 252: an unselected certification becomes \<open>"None"\<close>, with no message.\<close>

definition accept_certifications :: "profile \<Rightarrow> profile" where
  "accept_certifications p =
     (if certifications p = ''Select...'' then p\<lparr>certifications := ''None''\<rparr> else p)"

subsection \<open>The salary feature row (lines 298 to 354)\<close>

text \<open>
  \<open>int(enc.transform([v])[0])\<close> under its own \<open>try\<close>: 0 when no truthy encoder is
  registered under the name, and 0 when anything raises.
\<close>

definition encode_or_zero :: "registry \<Rightarrow> string \<Rightarrow> string \<Rightarrow> int" where
  "encode_or_zero reg name v =
     (case map_of (encoders reg) name of
        None \<Rightarrow> 0
      | Some enc \<Rightarrow>
          if enc_truthy enc
          then (case bind_exn (transform0 enc v) to_int of Inl _ \<Rightarrow> 0 | Inr i \<Rightarrow> i)
          else 0)"

text \<open>
  The \<open>if\<close>/\<open>elif\<close> chain that computes \<open>val\<close> for one feature name. The
  certifications field is a string, so \<open>certifications in (None, "None")\<close> is the
  comparison with \<open>"None"\<close>.
\<close>

definition salary_feature :: "registry \<Rightarrow> profile \<Rightarrow> string \<Rightarrow> int" where
  "salary_feature reg p feat =
     (if feat = ''current_job_title''
        then encode_or_zero reg ''current_job_title'' (current_job p)
      else if feat = ''target_job_title''
        then encode_or_zero reg ''target_job_title'' (target_job p)
      else if feat = ''education_level''
        then encode_or_zero reg ''education_level'' (education p)
      else if feat = ''portfolio_strength''
        then dict_get [(''Low'', 0), (''Medium'', 1), (''High'', 2)] (portfolio_strength p) 1
      else if feat = ''certifications''
        then (if certifications p = ''None'' then 0 else 1)
      else if feat = ''language_proficiency''
        then dict_get [(''Beginner'', 0), (''Intermediate'', 1), (''Advanced'', 2)]
               (language_proficiency p) 1
      else if feat = ''remote_work_preference''
        then dict_get [(''Onsite'', 0), (''Hybrid'', 1), (''Remote'', 2)] (remote_pref p) 0
      else if feat \<in> set [''years_of_experience'', ''projects_completed'',
                            ''communication_skills_rating'']
        then (if feat = ''years_of_experience'' then years_exp p
              else if feat = ''projects_completed'' then projects_completed p
              else comm_rating p)
      else 0)"

text \<open>The loop over the schema, with the dict \<open>X\<close> as accumulator.\<close>

fun build_salary_row :: "registry \<Rightarrow> profile \<Rightarrow> string list \<Rightarrow> row \<Rightarrow> row" where
  "build_salary_row reg p [] X = X"
| "build_salary_row reg p (feat # feats) X =
     (if feat \<in> set [''estimated_salary_usd'']
      then build_salary_row reg p feats X
      else build_salary_row reg p feats (dict_set X feat (salary_feature reg p feat)))"

subsection \<open>Salary resolution (lines 293 to 391)\<close>

definition make_frame :: "row \<Rightarrow> frame" where
  "make_frame X = map (\<lambda>(k, v). (k, IntCell v)) X"

text \<open>
  Lines 358 to 366 and 420 to 424. The truth test of the scaler stands before the inner
  \<open>try\<close> and may raise into the enclosing one; a failure of the scaling itself leaves
  the frame as it was.
\<close>

definition apply_scaler :: "registry \<Rightarrow> frame \<Rightarrow> exn + frame" where
  "apply_scaler reg df =
     (case scaler reg of
        None \<Rightarrow> Inr df
      | Some sc \<Rightarrow>
          bind_exn (truthy sc) (\<lambda>found.
            if found
            then Inr (case transform_frame sc df of Inl _ \<Rightarrow> df | Inr df' \<Rightarrow> df')
            else Inr df))"

definition USD_TO_INR :: pyfloat where
  "USD_TO_INR = float_literal 82 1"

text \<open>
  The value of \<open>predicted_salary_inr\<close> at line 375: \<open>None\<close> when the model block is
  skipped or anything in it raises. The condition of line 294 tests the truth of the
  model first, outside the \<open>try\<close>: an exception raised there leaves the block.
\<close>

definition model_salary :: "registry \<Rightarrow> profile \<Rightarrow> exn + int option" where
  "model_salary reg p =
     (case salary_model reg of
        None \<Rightarrow> Inr None
      | Some m \<Rightarrow>
          bind_exn (truthy m) (\<lambda>found.
            case feat_salary reg of
              None \<Rightarrow> Inr None
            | Some fs \<Rightarrow>
                if found \<and> fs \<noteq> []
                then Inr (case bind_exn
                                 (apply_scaler reg (make_frame (build_salary_row reg p fs [])))
                                 (\<lambda>df. bind_exn (predict0 m df)
                                 (\<lambda>v. bind_exn (to_float v)
                                 (\<lambda>salary_usd. int_of_float (fmul salary_usd USD_TO_INR))))
                          of Inl _ \<Rightarrow> None | Inr s \<Rightarrow> Some s)
                else Inr None))"

datatype salary_result = ModelDerivedSalary int | HeuristicSalary int

definition resolve_salary :: "registry \<Rightarrow> profile \<Rightarrow> exn + salary_result" where
  "resolve_salary reg p =
     bind_exn (model_salary reg p) (\<lambda>predicted_salary_inr.
       case predicted_salary_inr of
         Some s \<Rightarrow> Inr (ModelDerivedSalary s)
       | None \<Rightarrow>
           bind_exn (heuristic_salary (target_job p) (years_exp p))
             (\<lambda>s. Inr (HeuristicSalary s)))"

fun salary_value :: "salary_result \<Rightarrow> int" where
  "salary_value (ModelDerivedSalary s) = s"
| "salary_value (HeuristicSalary s) = s"

subsection \<open>The career suggestion preview (lines 402 to 441)\<close>

definition career_feature :: "registry \<Rightarrow> profile \<Rightarrow> string \<Rightarrow> exn + int" where
  "career_feature reg p feat =
     (if feat = ''target_job_title'' then Inr 0
      else if feat = ''current_job_title''
        then (case map_of (encoders reg) ''current_job_title'' of
                None \<Rightarrow> Inr 0
              | Some enc \<Rightarrow>
                  if enc_truthy enc then bind_exn (transform0 enc (current_job p)) to_int
                  else Inr 0)
      else if feat = ''years_of_experience'' then Inr (years_exp p)
      else Inr 0)"

fun build_career_row :: "registry \<Rightarrow> profile \<Rightarrow> string list \<Rightarrow> row \<Rightarrow> exn + row" where
  "build_career_row reg p [] Xin = Inr Xin"
| "build_career_row reg p (feat # feats) Xin =
     bind_exn (career_feature reg p feat)
       (\<lambda>v. build_career_row reg p feats (dict_set Xin feat v))"

text \<open>Lines 427 to 436: the label is decoded when possible, and printed as it is otherwise.\<close>

definition decode_label :: "registry \<Rightarrow> pyval \<Rightarrow> string" where
  "decode_label reg pred_label =
     (case map_of (encoders reg) ''target_job_title'' of
        None \<Rightarrow> to_str pred_label
      | Some enc_target \<Rightarrow>
          if enc_truthy enc_target
          then (case bind_exn (to_int pred_label) (inverse_transform0 enc_target) of
                  Inl _ \<Rightarrow> to_str pred_label
                | Inr role \<Rightarrow> role)
          else to_str pred_label)"

text \<open>
  What the block writes under the recommended role: the model's suggestion, a dash
  when the outer \<open>try\<close> caught an exception, or the note that no model is available.
  The condition of line 405 tests the truth of the career model outside the \<open>try\<close>.
\<close>

datatype suggestion = ModelSuggestion string | NoSuggestion | ModelNotAvailable

definition career_preview :: "registry \<Rightarrow> profile \<Rightarrow> exn + suggestion" where
  "career_preview reg p =
     (case career_model reg of
        None \<Rightarrow> Inr ModelNotAvailable
      | Some m \<Rightarrow>
          bind_exn (truthy m) (\<lambda>found.
            case feat_career reg of
              None \<Rightarrow> Inr ModelNotAvailable
            | Some fs \<Rightarrow>
                if found \<and> fs \<noteq> []
                then Inr (case bind_exn (build_career_row reg p fs [])
                                 (\<lambda>Xin. bind_exn (apply_scaler reg (make_frame Xin))
                                 (\<lambda>df. predict0 m df))
                          of Inl _ \<Rightarrow> NoSuggestion
                           | Inr pred_label \<Rightarrow> ModelSuggestion (decode_label reg pred_label))
                else Inr ModelNotAvailable))"

subsection \<open>Role content (lines 77 to 165, 449 to 538)\<close>

text \<open>
  Strings are kept as the bytes of the source file (UTF-8); the two dashes that occur in
  the roadmap texts are written out.
\<close>

definition em_dash :: string where
  "em_dash = [CHR 0xE2, CHR 0x80, CHR 0x94]"

definition en_dash :: string where
  "en_dash = [CHR 0xE2, CHR 0x80, CHR 0x93]"

text \<open>A course is a dict with the keys platform, course and duration.\<close>

type_synonym course = "(string \<times> string) list"

definition ROLE_SKILL_GAPS :: "(string \<times> string list) list" where
  "ROLE_SKILL_GAPS =
     [(''Data Scientist'',
        [''Python (Pandas, NumPy)'',
         ''SQL & Data querying'',
         ''Machine Learning fundamentals'',
         ''Data visualization (Matplotlib/Seaborn)'',
         ''Model deployment (Flask/Streamlit)'']),
      (''Frontend Engineer'',
        [''JavaScript (ES6+)'',
         ''React fundamentals'',
         ''HTML/CSS responsive design'',
         ''Web performance & accessibility'',
         ''Frontend testing (Jest)'']),
      (''System Administrator'',
        [''Linux fundamentals'',
         ''Shell scripting'',
         ''Networking basics'',
         ''Cloud fundamentals (AWS/GCP)'',
         ''Monitoring & troubleshooting'']),
      (''UI/UX Designer'',
        [''Design thinking & user research'',
         ''Figma/Sketch/Adobe XD'',
         ''Wireframing & prototyping'',
         ''Interaction design'',
         ''Storytelling & presentation'']),
      (''Product Manager'',
        [''User research & product discovery'',
         ''Roadmapping & prioritization'',
         ''Stakeholder communication'',
         ''Metrics & experimentation'',
         ''Basic data analysis'']),
      (''Junior Data Analyst'',
        [''Excel & spreadsheets'',
         ''SQL basics'',
         ''Data cleaning & EDA'',
         ''Basic visualization'',
         ''Presentation skills'']),
      (''Frontend Developer'',
        [''HTML/CSS/JS'',
         ''React or Vue'',
         ''Component architecture'',
         ''State management'',
         ''Testing'']),
      (''Technical Support Engineer'',
        [''Troubleshooting fundamentals'',
         ''Customer communication'',
         ''Product knowledge'',
         ''Basic networking'',
         ''Scripting for automation'']),
      (''Junior UI/UX Designer'',
        [''Figma basics'',
         ''Wireframing'',
         ''Basic prototyping'',
         ''Usability heuristics'',
         ''Design critique'']),
      (''Marketing Analyst'',
        [''Excel & Google Sheets'',
         ''Basic statistics'',
         ''Data visualization'',
         ''Marketing analytics tools'',
         ''Campaign measurement''])]"

definition ROLE_COURSES_literal :: "(string \<times> course list option) list" where
  "ROLE_COURSES_literal =
     [(''Data Scientist'', Some
        [[(''platform'', ''Coursera''), (''course'', ''Python for Data Science''), (''duration'', ''4 weeks'')],
         [(''platform'', ''Udemy''), (''course'', ''Machine Learning Bootcamp''), (''duration'', ''6 weeks'')],
         [(''platform'', ''YouTube''), (''course'', ''Data Viz with Tableau''), (''duration'', ''3 weeks'')]]),
      (''UI/UX Designer'', Some
        [[(''platform'', ''Coursera''), (''course'', ''UI/UX Specialization''), (''duration'', ''6 weeks'')],
         [(''platform'', ''YouTube''), (''course'', ''Design system tutorials''), (''duration'', ''2 weeks'')],
         [(''platform'', ''Udemy''), (''course'', ''Figma practical projects''), (''duration'', ''4 weeks'')]])]"

definition ROLE_ROADMAP :: "(string \<times> (string \<times> string) list) list" where
  "ROLE_ROADMAP =
     [(''Data Scientist'',
        [(''Assess'', ''Review Python, SQL, portfolio, machine learning basics.''),
         (''Learn'', ''Complete ML courses (Supervised, Unsupervised), Stats, EDA.''),
         (''Build'', (''Create 4 ML projects '' @ em_dash @ '' Regression, Classification, NLP, Deployment.'')),
         (''Profile'', ''Publish Kaggle notebooks, GitHub repos & LinkedIn posts.''),
         (''Apply'', ''Apply to DS roles, practice ML system design interviews.'')]),
      (''Frontend Engineer'',
        [(''Assess'', ''Evaluate HTML, CSS, JS, React fundamentals.''),
         (''Learn'', ''Master React, Hooks, State mgmt, API integration.''),
         (''Build'', (''Build 3'' @ en_dash @ ''5 responsive websites + React apps.'')),
         (''Profile'', ''Deploy on Netlify/Vercel, share UI case studies.''),
         (''Apply'', ''Apply with live websites + GitHub portfolio.'')]),
      (''System Administrator'',
        [(''Assess'', ''Check Linux knowledge, shell scripting, networking basics.''),
         (''Learn'', ''Study Linux, Bash, AWS, monitoring tools.''),
         (''Build'', ''Build server configs, automate tasks, deploy scripts.''),
         (''Profile'', ''Document troubleshooting cases, publish scripts on GitHub.''),
         (''Apply'', ''Apply to SysAdmin/IT roles & take tech support interviews.'')]),
      (''UI/UX Designer'',
        [(''Assess'', ''Evaluate Figma, wireframing, user research skills.''),
         (''Learn'', ''Practice UX case studies, interaction design, heuristics.''),
         (''Build'', ''Create 3 UI/UX case studies + mobile/web prototypes.''),
         (''Profile'', ''Publish Dribbble/Figma/Behance portfolio.''),
         (''Apply'', ''Apply for UI/UX Intern/Junior roles with strong portfolio.'')]),
      (''Product Manager'',
        [(''Assess'', ''Check communication, research, analytics & docs skills.''),
         (''Learn'', ''Study PRDs, user stories, Agile, prioritization frameworks.''),
         (''Build'', ''Create 2 product case studies + a product roadmap.''),
         (''Profile'', ''Publish PM case studies & feature breakdowns.''),
         (''Apply'', ''Apply for APM roles, complete PM interview practice.'')]),
      (''Junior Data Analyst'',
        [(''Assess'', ''Assess Excel, SQL, dashboarding skills.''),
         (''Learn'', ''Take courses in SQL, Power BI/Tableau, statistics.''),
         (''Build'', ''Create 3 dashboards + 2 data cleaning projects.''),
         (''Profile'', ''Upload dashboards to LinkedIn & GitHub.''),
         (''Apply'', ''Apply for Data Analyst Intern/Junior roles.'')]),
      (''Frontend Developer'',
        [(''Assess'', ''Check React, HTML, JS, responsiveness knowledge.''),
         (''Learn'', ''React advanced concepts + CSS frameworks (Tailwind).''),
         (''Build'', (''Build 4'' @ en_dash @ ''6 UI clones & dynamic web apps.'')),
         (''Profile'', ''Deploy projects, share UI/UX improvements.''),
         (''Apply'', ''Apply with portfolio & GitHub repos.'')]),
      (''Technical Support Engineer'',
        [(''Assess'', ''Assess troubleshooting, communication & software basics.''),
         (''Learn'', ''Study OS basics, networking, ticket systems.''),
         (''Build'', ''Create documentation tutorials & automation scripts.''),
         (''Profile'', ''Show real scenarios & solutions in resume.''),
         (''Apply'', ''Apply to L1 support roles, practice customer interaction.'')]),
      (''Junior UI/UX Designer'',
        [(''Assess'', ''Check Figma basics, wireframing, UX research understanding.''),
         (''Learn'', ''Learn design principles, layouts, typography.''),
         (''Build'', ''Make 3 beginner-friendly app/web redesigns.''),
         (''Profile'', ''Publish Behance/Figma case studies.''),
         (''Apply'', ''Apply for entry UI/UX roles.'')]),
      (''Marketing Analyst'',
        [(''Assess'', ''Check analytics tools, Excel, reports knowledge.''),
         (''Learn'', ''Study Google Analytics, basic statistics, dashboards.''),
         (''Build'', (''Create 3'' @ en_dash @ ''5 campaign analysis projects.'')),
         (''Profile'', ''Publish dashboard snapshots & insights.''),
         (''Apply'', ''Apply for junior marketing/analytics roles.'')])]"

text \<open>
  Lines 164 and 165: every role of \<open>ROLE_SKILL_GAPS\<close> that has no courses gets the
  value of \<open>ROLE_COURSES.get("Data Scientist")\<close>, which is \<open>None\<close> if that key is
  missing; this is why a table value is an option.
\<close>

definition ROLE_COURSES :: "(string \<times> course list option) list" where
  "ROLE_COURSES =
     fold (\<lambda>r d. dict_setdefault d r (dict_get d r (dict_get d ''Data Scientist'' None)))
       (map fst ROLE_SKILL_GAPS) ROLE_COURSES_literal"

text \<open>
  \<open>TABLE.get(target_job, TABLE["Data Scientist"])\<close>: the default is evaluated first,
  and indexing raises KeyError when the key is missing.
\<close>

definition skill_gaps_lookup :: "string \<Rightarrow> exn + string list" where
  "skill_gaps_lookup target =
     bind_exn (dict_index ROLE_SKILL_GAPS ''Data Scientist'')
       (\<lambda>dflt. Inr (dict_get ROLE_SKILL_GAPS target dflt))"

definition courses_lookup :: "string \<Rightarrow> exn + course list option" where
  "courses_lookup target =
     bind_exn (dict_index ROLE_COURSES ''Data Scientist'')
       (\<lambda>dflt. Inr (dict_get ROLE_COURSES target dflt))"

definition roadmap_lookup :: "string \<Rightarrow> exn + (string \<times> string) list" where
  "roadmap_lookup target =
     bind_exn (dict_index ROLE_ROADMAP ''Data Scientist'')
       (\<lambda>dflt. Inr (dict_get ROLE_ROADMAP target dflt))"

text \<open>Lines 544 to 562 read the five stages of the chosen roadmap in this order.\<close>

definition roadmap_stages :: "(string \<times> string) list \<Rightarrow> exn + string list" where
  "roadmap_stages roadmap =
     bind_exn (dict_index roadmap ''Assess'') (\<lambda>a.
     bind_exn (dict_index roadmap ''Learn'') (\<lambda>l.
     bind_exn (dict_index roadmap ''Build'') (\<lambda>b.
     bind_exn (dict_index roadmap ''Profile'') (\<lambda>pr.
     bind_exn (dict_index roadmap ''Apply'') (\<lambda>ap. Inr [a, l, b, pr, ap])))))"

text \<open>The role selectors offer a placeholder followed by the keys of \<open>ROLE_SKILL_GAPS\<close>.\<close>

definition role_options :: "string list" where
  "role_options = map fst ROLE_SKILL_GAPS"

definition current_job_options :: "string list" where
  "current_job_options = ''Select current job'' # role_options"

definition target_job_options :: "string list" where
  "target_job_options = ''Select target job'' # role_options"

subsection \<open>One run of the script after loading (lines 213 to 564)\<close>

text \<open>
  The five marks of the status lists (lines 213 to 217 in the sidebar, lines 277 to 281
  after validation): the truth of the two models, of the scaler and of the two schemas.
  The sidebar adds the names of the loaded encoders (line 218).
\<close>

definition quick_status :: "registry \<Rightarrow> exn + bool list" where
  "quick_status reg =
     bind_exn (obj_truthy (salary_model reg)) (\<lambda>sm.
     bind_exn (obj_truthy (career_model reg)) (\<lambda>cm.
     bind_exn (obj_truthy (scaler reg)) (\<lambda>sc.
       Inr [sm, cm, sc, list_truthy (feat_salary reg), list_truthy (feat_career reg)])))"

definition sidebar_status :: "registry \<Rightarrow> exn + bool list \<times> string list" where
  "sidebar_status reg =
     bind_exn (quick_status reg) (\<lambda>marks. Inr (marks, map fst (encoders reg)))"

record analysis =
  salary :: salary_result
  recommended_role :: string
  model_suggestion :: suggestion
  skill_gaps :: "string list"
  courses :: "course list option"
  roadmap_texts :: "string list"

text \<open>
  Lines 235 to 564. \<open>st.stop()\<close> ends the run: before the button is pressed
  (\<open>Idle\<close>) and after the validation messages are shown (\<open>Rejected\<close>). Otherwise
  every block runs, in the order of the source.
\<close>

datatype outcome = Idle | Rejected "string list" | Report analysis

definition run_analysis :: "registry \<Rightarrow> bool \<Rightarrow> profile \<Rightarrow> exn + outcome" where
  "run_analysis reg analyze inputs =
     (if \<not> analyze then Inr Idle
      else let errors = validation_errors inputs; p = accept_certifications inputs
           in if errors \<noteq> [] then Inr (Rejected errors)
              else bind_exn (quick_status reg) (\<lambda>marks.
                   bind_exn (resolve_salary reg p) (\<lambda>s.
                   bind_exn (career_preview reg p) (\<lambda>suggested.
                   bind_exn (skill_gaps_lookup (target_job p)) (\<lambda>gaps.
                   bind_exn (courses_lookup (target_job p)) (\<lambda>cs.
                   bind_exn (roadmap_lookup (target_job p)) (\<lambda>roadmap.
                   bind_exn (roadmap_stages roadmap) (\<lambda>stages.
                     Inr (Report \<lparr>salary = s, recommended_role = target_job p,
                                  model_suggestion = suggested,
                                  skill_gaps = gaps, courses = cs,
                                  roadmap_texts = stages\<rparr>)))))))))"

text \<open>The whole script: the loading block, the sidebar with its status list, then the run.\<close>

definition app_script :: "world \<Rightarrow> bool \<Rightarrow> profile \<Rightarrow> exn + outcome" where
  "app_script w analyze inputs =
     bind_exn (load_artifacts w) (\<lambda>reg.
     bind_exn (sidebar_status reg) (\<lambda>status. run_analysis reg analyze inputs))"

subsection \<open>Reference values and sample inputs\<close>

text \<open>
  The product \<open>base * (100 + 6 * m) / 100\<close> in exact arithmetic, truncated, and the
  value the double arithmetic of the source arrives at: one less at six years for most
  bases, because \<open>1 + 6 * 0.06\<close> rounds to the double just below 1.36.
\<close>

definition exact_salary :: "int \<Rightarrow> int \<Rightarrow> int" where
  "exact_salary b m = b * (100 + 6 * m) div 100"

definition rounded_salary :: "int \<Rightarrow> int \<Rightarrow> int" where
  "rounded_salary b m =
     exact_salary b m - (if m = 6 \<and> b \<noteq> 900000 \<and> b \<noteq> 450000 then 1 else 0)"

definition known_bases :: "int list" where
  "known_bases =
     [900000, 700000, 500000, 600000, 1000000, 350000, 650000, 300000, 450000]"

text \<open>A machine with joblib installed and none of the optional files present.\<close>

definition no_files_world :: world where
  "no_files_world =
     \<lparr>joblib_importable = True,
      joblib_load = (\<lambda>path. Inl (OtherError ''FileNotFoundError'')),
      json_load = (\<lambda>path. Inl (OtherError ''FileNotFoundError''))\<rparr>"

definition no_artifacts :: registry where
  "no_artifacts =
     \<lparr>salary_model = None, career_model = None, scaler = None, encoders = [],
      feat_salary = None, feat_career = None\<rparr>"

text \<open>A model or scaler, and an encoder, that are truthy and whose every method raises.\<close>

definition raising_artifact :: artifact where
  "raising_artifact =
     \<lparr>truthy = Inr True,
      predict0 = (\<lambda>df. Inl (OtherError ''predict'')),
      transform_frame = (\<lambda>df. Inl (OtherError ''transform''))\<rparr>"



text \<open>A numeric value of an artifact, given with its printed form.\<close>

definition number_val :: "int \<Rightarrow> string \<Rightarrow> pyval" where
  "number_val i printed = \<lparr>to_float = float_of_int i, to_int = Inr i, to_str = printed\<rparr>"

text \<open>A salary model that predicts 40000 plus 1000 per year of experience, from integer cells only.\<close>

definition years_model :: artifact where
  "years_model =
     raising_artifact
       \<lparr>predict0 := (\<lambda>df. case map_of df ''years_of_experience'' of
                              Some (IntCell y) \<Rightarrow> Inr (number_val (40000 + 1000 * y) ''?'')
                            | _ \<Rightarrow> Inl (OtherError ''predict''))\<rparr>"


text \<open>A salary model that predicts 1000, and 1000 more with a certification.\<close>

definition certs_model :: artifact where
  "certs_model =
     raising_artifact
       \<lparr>predict0 := (\<lambda>df. case map_of df ''certifications'' of
                              Some (IntCell c) \<Rightarrow> Inr (number_val (1000 + 1000 * c) ''?'')
                            | _ \<Rightarrow> Inl (OtherError ''predict''))\<rparr>"

definition sample_profile :: profile where
  "sample_profile =
     \<lparr>current_job = ''Marketing Analyst'', target_job = ''Product Manager'',
      education = ''MBA'', portfolio_strength = ''High'',
      certifications = ''AWS Certified'', language_proficiency = ''Advanced'',
      remote_pref = ''Hybrid'', years_exp = 10, projects_completed = 4,
      comm_rating = 7, skills_text = ''SQL, Excel''\<rparr>"

definition sample_schema :: "string list" where
  "sample_schema =
     [''years_of_experience'', ''estimated_salary_usd'', ''current_job_title'',
      ''certifications'', ''years_of_experience'', ''skill_count'']"



definition certs_model_registry :: registry where
  "certs_model_registry =
     no_artifacts\<lparr>salary_model := Some certs_model,
                   feat_salary := Some [''years_of_experience'', ''certifications'']\<rparr>"

text \<open>The report of a run that reached its end.\<close>

fun reported :: "exn + outcome \<Rightarrow> analysis option" where
  "reported (Inr (Report r)) = Some r"
| "reported _ = None"

text \<open>The sample profile with one selector left at its placeholder.\<close>

definition cert_unselected :: profile where
  "cert_unselected = sample_profile\<lparr>certifications := ''Select...''\<rparr>"

definition target_unselected :: profile where
  "target_unselected = sample_profile\<lparr>target_job := ''Select target job''\<rparr>"




definition scaler_raises_registry :: registry where
  "scaler_raises_registry =
     no_artifacts\<lparr>salary_model := Some years_model, scaler := Some raising_artifact,
                   feat_salary := Some [''years_of_experience'']\<rparr>"




section \<open>Properties\<close>

subsection \<open>Loading\<close>

lemma load_encoders_raises:
  "names \<noteq> [] \<Longrightarrow> load_encoders w names encs = Inl (NameError ''safe_load_joblib'')"
  by (cases names) (simp_all add: safe_load_joblib_def bind_exn_def)

lemma load_artifacts_cases:
  "load_artifacts w =
     Inl (if \<not> joblib_importable w then ModuleNotFoundError ''joblib''
          else case joblib_load w ''scaler.pkl'' of
                 Inl _ \<Rightarrow> NameError ''safe_load_joblib''
               | Inr a \<Rightarrow> (case truthy a of
                             Inl e \<Rightarrow> e
                           | Inr _ \<Rightarrow> NameError ''safe_load_joblib''))"
  by (simp add: load_artifacts_def safe_load_pickle_def safe_load_joblib_def bind_exn_def
      obj_truthy_def load_encoders_raises encoder_files_def split: sum.splits)

text \<open>
  C1. The claim is that loading an artifact returns the artifact or \<open>None\<close> and never
  raises. The loading block of the source does raise: with no optional file present the
  scaler line reaches the unbound name \<open>safe_load_joblib\<close>, and so does the whole
  script; on every machine the block ends in that NameError, in the import error of
  joblib, or in the exception that the truth test of the loaded scaler raises at line 55.
\<close>

theorem load_artifacts_raises:
  "load_artifacts no_files_world = Inl (NameError ''safe_load_joblib'')
   \<and> app_script no_files_world analyze inputs = Inl (NameError ''safe_load_joblib'')
   \<and> load_artifacts w
       \<in> {Inl (NameError ''safe_load_joblib''), Inl (ModuleNotFoundError ''joblib'')}
         \<union> {Inl e |e a. joblib_load w ''scaler.pkl'' = Inr a \<and> truthy a = Inl e}"
  by (auto simp: load_artifacts_cases app_script_def bind_exn_def no_files_world_def
      split: sum.splits)

subsection \<open>Validation\<close>

lemma run_rejected:
  "validation_errors p \<noteq> [] \<Longrightarrow> run_analysis reg True p = Inr (Rejected (validation_errors p))"
  by (simp add: run_analysis_def Let_def)

text \<open>
  C4, as amended. If the current job, the target job, the education level, the portfolio
  strength, the language proficiency or the remote preference is left at its placeholder,
  the run ends with the validation messages, the message of that field among them, and
  produces no report: no salary, no suggestion, no skill gaps, courses or roadmap.
\<close>

theorem validation_blocks_unselected:
  assumes "current_job p = ''Select current job'' \<or> target_job p = ''Select target job''
     \<or> education p = ''Select education'' \<or> portfolio_strength p = ''Select...''
     \<or> language_proficiency p = ''Select...'' \<or> remote_pref p = ''Select...''"
  shows "run_analysis reg True p = Inr (Rejected (validation_errors p))
     \<and> reported (run_analysis reg True p) = None
     \<and> (current_job p = ''Select current job''
          \<longrightarrow> ''Choose your current job.'' \<in> set (validation_errors p))
     \<and> (target_job p = ''Select target job''
          \<longrightarrow> ''Choose your target job.'' \<in> set (validation_errors p))
     \<and> (education p = ''Select education''
          \<longrightarrow> ''Select your education level.'' \<in> set (validation_errors p))
     \<and> (portfolio_strength p = ''Select...''
          \<longrightarrow> ''Select portfolio strength.'' \<in> set (validation_errors p))
     \<and> (language_proficiency p = ''Select...''
          \<longrightarrow> ''Select language proficiency.'' \<in> set (validation_errors p))
     \<and> (remote_pref p = ''Select...''
          \<longrightarrow> ''Select remote preference.'' \<in> set (validation_errors p))"
proof -
  from assms have "validation_errors p \<noteq> []"
    by (auto simp: validation_errors_def)
  then have "run_analysis reg True p = Inr (Rejected (validation_errors p))"
    by (rule run_rejected)
  then show ?thesis
    by (simp add: validation_errors_def)
qed

theorem validation_blocks_unselected_witness:
  "target_job target_unselected = ''Select target job''
   \<and> run_analysis no_artifacts True target_unselected = Inr (Rejected [''Choose your target job.''])
   \<and> reported (run_analysis no_artifacts True target_unselected) = None"
  using validation_blocks_unselected [of target_unselected no_artifacts]
  by (simp add: target_unselected_def sample_profile_def validation_errors_def)

text \<open>
  C4 as stated fails for the certifications field: left at its placeholder, with every
  other field chosen, it is not reported and the run goes on to the salary.
\<close>

theorem validation_certifications_counterexample:
  "certifications cert_unselected = ''Select...''
   \<and> validation_errors cert_unselected = []
   \<and> map_option salary (reported (run_analysis no_artifacts True cert_unselected))
       = Some (HeuristicSalary 1600000)"
  by code_simp

subsection \<open>Role content\<close>

lemma dict_get_cases:
  "dict_get d k dflt = dflt \<and> map_of d k = None \<or> map_of d k = Some (dict_get d k dflt)"
  by (simp add: dict_get_def split: option.splits)

lemma list_all_map_of:
  "list_all (\<lambda>(k, v). P v) d \<Longrightarrow> map_of d k = Some v \<Longrightarrow> P v"
  by (auto simp: list_all_iff dest: map_of_SomeD)

lemma skill_gaps_nonempty:
  "list_all (\<lambda>(k, v). v \<noteq> [] \<and> list_all (\<lambda>t. t \<noteq> []) v) ROLE_SKILL_GAPS"
  by code_simp

lemma courses_nonempty:
  "list_all (\<lambda>(k, v). case v of
       None \<Rightarrow> False
     | Some cs \<Rightarrow> cs \<noteq> []
         \<and> list_all (\<lambda>course. map fst course = [''platform'', ''course'', ''duration'']
               \<and> list_all (\<lambda>(a, b). b \<noteq> []) course) cs) ROLE_COURSES"
  by code_simp

lemma courses_filled:
  "list_all (\<lambda>r. case map_of ROLE_COURSES_literal r of
       None \<Rightarrow> map_of ROLE_COURSES r = map_of ROLE_COURSES_literal ''Data Scientist''
     | Some v \<Rightarrow> map_of ROLE_COURSES r = Some v) role_options"
  by code_simp

lemma courses_keys: "set (map fst ROLE_COURSES) = set role_options"
  by code_simp

lemma roadmap_complete:
  "list_all (\<lambda>(k, v). case roadmap_stages v of Inl _ \<Rightarrow> False
       | Inr st \<Rightarrow> length st = 5 \<and> list_all (\<lambda>t. t \<noteq> []) st) ROLE_ROADMAP"
  by code_simp

lemma default_entries:
  "map_of ROLE_SKILL_GAPS ''Data Scientist'' \<noteq> None
   \<and> map_of ROLE_COURSES ''Data Scientist'' \<noteq> None
   \<and> map_of ROLE_ROADMAP ''Data Scientist'' \<noteq> None"
  by code_simp

lemma selector_roles_present:
  "list_all (\<lambda>r. map_of ROLE_SKILL_GAPS r \<noteq> None \<and> map_of ROLE_COURSES r \<noteq> None
      \<and> map_of ROLE_ROADMAP r \<noteq> None) role_options"
  by code_simp

lemma skill_gaps_lookup_total:
  "\<exists>g. skill_gaps_lookup role = Inr g \<and> g \<noteq> [] \<and> (\<forall>t \<in> set g. t \<noteq> [])
     \<and> (map_of ROLE_SKILL_GAPS role = Some g
         \<or> map_of ROLE_SKILL_GAPS role = None \<and> map_of ROLE_SKILL_GAPS ''Data Scientist'' = Some g)"
proof -
  obtain d where d: "map_of ROLE_SKILL_GAPS ''Data Scientist'' = Some d"
    using default_entries by auto
  have ne: "map_of ROLE_SKILL_GAPS r = Some v \<Longrightarrow> v \<noteq> [] \<and> (\<forall>t \<in> set v. t \<noteq> [])" for r v
    using list_all_map_of [OF skill_gaps_nonempty, of r v] by (simp add: list_all_iff)
  show ?thesis
    using d ne [of role] ne [OF d]
    by (cases "map_of ROLE_SKILL_GAPS role")
      (auto simp: skill_gaps_lookup_def dict_index_def dict_get_def bind_exn_def)
qed

lemma courses_lookup_total:
  "\<exists>c. courses_lookup role = Inr (Some c) \<and> c \<noteq> []
     \<and> (\<forall>course \<in> set c. map fst course = [''platform'', ''course'', ''duration'']
           \<and> (\<forall>v \<in> snd ` set course. v \<noteq> []))
     \<and> (map_of ROLE_COURSES role = Some (Some c)
         \<or> map_of ROLE_COURSES role = None \<and> map_of ROLE_COURSES ''Data Scientist'' = Some (Some c))"
proof -
  have ne: "map_of ROLE_COURSES r = Some v \<Longrightarrow>
      \<exists>c. v = Some c \<and> c \<noteq> []
        \<and> (\<forall>course \<in> set c. map fst course = [''platform'', ''course'', ''duration'']
              \<and> (\<forall>v \<in> snd ` set course. v \<noteq> []))" for r v
    using list_all_map_of [OF courses_nonempty, of r v]
    by (auto simp: list_all_iff split: option.splits)
  obtain d where d: "map_of ROLE_COURSES ''Data Scientist'' = Some d"
    using default_entries by auto
  show ?thesis
  proof (cases "map_of ROLE_COURSES role")
    case None
    with d ne [OF d] show ?thesis
      by (auto simp: courses_lookup_def dict_index_def dict_get_def bind_exn_def)
  next
    case (Some v)
    with d ne [OF Some] show ?thesis
      by (auto simp: courses_lookup_def dict_index_def dict_get_def bind_exn_def)
  qed
qed

lemma roadmap_lookup_total:
  "\<exists>r st. roadmap_lookup role = Inr r \<and> r \<noteq> [] \<and> roadmap_stages r = Inr st
     \<and> length st = 5 \<and> (\<forall>t \<in> set st. t \<noteq> [])
     \<and> (map_of ROLE_ROADMAP role = Some r
         \<or> map_of ROLE_ROADMAP role = None \<and> map_of ROLE_ROADMAP ''Data Scientist'' = Some r)"
proof -
  have ne: "map_of ROLE_ROADMAP k = Some v \<Longrightarrow>
      \<exists>st. roadmap_stages v = Inr st \<and> length st = 5 \<and> (\<forall>t \<in> set st. t \<noteq> [])" for k v
    using list_all_map_of [OF roadmap_complete, of k v]
    by (auto simp: list_all_iff split: sum.splits)
  have ne2: "roadmap_stages v = Inr st \<Longrightarrow> v \<noteq> []" for v st
    by (auto simp: roadmap_stages_def dict_index_def bind_exn_def)
  obtain d where d: "map_of ROLE_ROADMAP ''Data Scientist'' = Some d"
    using default_entries by auto
  show ?thesis
    using d ne [of role] ne [OF d] ne2
    by (cases "map_of ROLE_ROADMAP role")
      (auto simp: roadmap_lookup_def dict_index_def dict_get_def bind_exn_def)
qed

lemma selector_role_courses:
  assumes "role \<in> set role_options" and "map_of ROLE_COURSES role = Some (Some c)"
  shows "(map_of ROLE_COURSES_literal role = None
            \<longrightarrow> map_of ROLE_COURSES_literal ''Data Scientist'' = Some (Some c))
     \<and> (\<forall>c'. map_of ROLE_COURSES_literal role = Some c' \<longrightarrow> c' = Some c)"
  using assms courses_filled by (auto simp: list_all_iff split: option.splits)

text \<open>
  C9. Every role offered by the role selector has a non-empty entry in the skill-gap
  table, in the course table after the fill of lines 164 and 165, and in the roadmap
  table, and each lookup returns that entry. The skill gaps are non-empty texts; the
  courses are dicts with a platform, a course and a duration, none empty; the roadmap
  has its five stage texts, none empty. The fill keeps the courses a role had and gives
  every other selector role the courses of "Data Scientist"; after it the course table
  has exactly the selector roles as keys. For a role that a table lacks, the lookup
  returns what it returns for "Data Scientist". For every role whatsoever the three
  lookups return non-empty content and do not raise.
\<close>

theorem role_content_nonempty:
  "(\<forall>role \<in> set role_options.
      \<exists>g c r st.
        map_of ROLE_SKILL_GAPS role = Some g \<and> skill_gaps_lookup role = Inr g \<and> g \<noteq> []
        \<and> (\<forall>t \<in> set g. t \<noteq> [])
        \<and> map_of ROLE_COURSES role = Some (Some c) \<and> courses_lookup role = Inr (Some c) \<and> c \<noteq> []
        \<and> (\<forall>course \<in> set c. map fst course = [''platform'', ''course'', ''duration'']
              \<and> (\<forall>v \<in> snd ` set course. v \<noteq> []))
        \<and> (map_of ROLE_COURSES_literal role = None
              \<longrightarrow> map_of ROLE_COURSES_literal ''Data Scientist'' = Some (Some c))
        \<and> (\<forall>c'. map_of ROLE_COURSES_literal role = Some c' \<longrightarrow> c' = Some c)
        \<and> map_of ROLE_ROADMAP role = Some r \<and> roadmap_lookup role = Inr r \<and> r \<noteq> []
        \<and> roadmap_stages r = Inr st \<and> length st = 5 \<and> (\<forall>t \<in> set st. t \<noteq> []))
   \<and> set (map fst ROLE_COURSES) = set role_options
   \<and> (map_of ROLE_SKILL_GAPS role' = None
        \<longrightarrow> skill_gaps_lookup role' = skill_gaps_lookup ''Data Scientist'')
   \<and> (map_of ROLE_COURSES role' = None
        \<longrightarrow> courses_lookup role' = courses_lookup ''Data Scientist'')
   \<and> (map_of ROLE_ROADMAP role' = None
        \<longrightarrow> roadmap_lookup role' = roadmap_lookup ''Data Scientist'')
   \<and> (\<exists>g c r. skill_gaps_lookup role' = Inr g \<and> g \<noteq> []
        \<and> courses_lookup role' = Inr (Some c) \<and> c \<noteq> []
        \<and> roadmap_lookup role' = Inr r \<and> r \<noteq> [])"
proof -
  have sel: "\<exists>g c r st.
        map_of ROLE_SKILL_GAPS role = Some g \<and> skill_gaps_lookup role = Inr g \<and> g \<noteq> []
        \<and> (\<forall>t \<in> set g. t \<noteq> [])
        \<and> map_of ROLE_COURSES role = Some (Some c) \<and> courses_lookup role = Inr (Some c) \<and> c \<noteq> []
        \<and> (\<forall>course \<in> set c. map fst course = [''platform'', ''course'', ''duration'']
              \<and> (\<forall>v \<in> snd ` set course. v \<noteq> []))
        \<and> (map_of ROLE_COURSES_literal role = None
              \<longrightarrow> map_of ROLE_COURSES_literal ''Data Scientist'' = Some (Some c))
        \<and> (\<forall>c'. map_of ROLE_COURSES_literal role = Some c' \<longrightarrow> c' = Some c)
        \<and> map_of ROLE_ROADMAP role = Some r \<and> roadmap_lookup role = Inr r \<and> r \<noteq> []
        \<and> roadmap_stages r = Inr st \<and> length st = 5 \<and> (\<forall>t \<in> set st. t \<noteq> [])"
    if "role \<in> set role_options" for role
  proof -
    from that selector_roles_present
    have pres: "map_of ROLE_SKILL_GAPS role \<noteq> None" "map_of ROLE_COURSES role \<noteq> None"
      "map_of ROLE_ROADMAP role \<noteq> None"
      by (auto simp: list_all_iff)
    from skill_gaps_lookup_total [of role] pres(1)
    obtain g where g: "map_of ROLE_SKILL_GAPS role = Some g" "skill_gaps_lookup role = Inr g"
      "g \<noteq> []" "\<forall>t \<in> set g. t \<noteq> []"
      by auto
    from courses_lookup_total [of role] pres(2)
    obtain c where c: "map_of ROLE_COURSES role = Some (Some c)"
      "courses_lookup role = Inr (Some c)" "c \<noteq> []"
      "\<forall>course \<in> set c. map fst course = [''platform'', ''course'', ''duration'']
              \<and> (\<forall>v \<in> snd ` set course. v \<noteq> [])"
      by auto
    from roadmap_lookup_total [of role] pres(3)
    obtain r st where r: "map_of ROLE_ROADMAP role = Some r" "roadmap_lookup role = Inr r"
      "r \<noteq> []" "roadmap_stages r = Inr st" "length st = 5" "\<forall>t \<in> set st. t \<noteq> []"
      by auto
    note lit = selector_role_courses [OF that c(1)]
    show ?thesis
      by (rule exI [of _ g], rule exI [of _ c], rule exI [of _ r], rule exI [of _ st])
        (intro conjI g c r lit [THEN conjunct1] lit [THEN conjunct2])
  qed
  have fb: "map_of ROLE_SKILL_GAPS role' = None
        \<longrightarrow> skill_gaps_lookup role' = skill_gaps_lookup ''Data Scientist''"
    "map_of ROLE_COURSES role' = None
        \<longrightarrow> courses_lookup role' = courses_lookup ''Data Scientist''"
    "map_of ROLE_ROADMAP role' = None
        \<longrightarrow> roadmap_lookup role' = roadmap_lookup ''Data Scientist''"
    using default_entries
    by (auto simp: skill_gaps_lookup_def courses_lookup_def roadmap_lookup_def
        dict_index_def dict_get_def bind_exn_def)
  from skill_gaps_lookup_total [of role'] courses_lookup_total [of role']
    roadmap_lookup_total [of role']
  have tot: "\<exists>g c r. skill_gaps_lookup role' = Inr g \<and> g \<noteq> []
        \<and> courses_lookup role' = Inr (Some c) \<and> c \<noteq> []
        \<and> roadmap_lookup role' = Inr r \<and> r \<noteq> []"
    by blast
  show ?thesis
    by (intro conjI ballI sel courses_keys fb tot) assumption
qed

theorem role_content_nonempty_witness:
  "''Product Manager'' \<in> set role_options
   \<and> map_of ROLE_COURSES_literal ''Product Manager'' = None
   \<and> map_of ROLE_COURSES ''Product Manager'' = map_of ROLE_COURSES_literal ''Data Scientist''
   \<and> courses_lookup ''Product Manager'' = courses_lookup ''Data Scientist''
   \<and> skill_gaps_lookup ''Product Manager''
       = Inr [''User research & product discovery'', ''Roadmapping & prioritization'',
              ''Stakeholder communication'', ''Metrics & experimentation'',
              ''Basic data analysis'']
   \<and> bind_exn (roadmap_lookup ''Product Manager'') (\<lambda>r. dict_index r ''Build'')
       = Inr ''Create 2 product case studies + a product roadmap.''
   \<and> map_of ROLE_SKILL_GAPS ''Astronaut'' = None
   \<and> map_of ROLE_COURSES ''Astronaut'' = None
   \<and> map_of ROLE_ROADMAP ''Astronaut'' = None
   \<and> skill_gaps_lookup ''Astronaut'' = skill_gaps_lookup ''Data Scientist''
   \<and> courses_lookup ''Astronaut'' = courses_lookup ''Data Scientist''
   \<and> roadmap_lookup ''Astronaut'' = roadmap_lookup ''Data Scientist''"
proof -
  have pm: "''Product Manager'' \<in> set role_options"
    "map_of ROLE_COURSES_literal ''Product Manager'' = None"
    "map_of ROLE_COURSES ''Product Manager'' = map_of ROLE_COURSES_literal ''Data Scientist''"
    "courses_lookup ''Product Manager'' = courses_lookup ''Data Scientist''"
    "skill_gaps_lookup ''Product Manager''
       = Inr [''User research & product discovery'', ''Roadmapping & prioritization'',
              ''Stakeholder communication'', ''Metrics & experimentation'',
              ''Basic data analysis'']"
    "bind_exn (roadmap_lookup ''Product Manager'') (\<lambda>r. dict_index r ''Build'')
       = Inr ''Create 2 product case studies + a product roadmap.''"
    by code_simp+
  have absent: "map_of ROLE_SKILL_GAPS ''Astronaut'' = None"
    "map_of ROLE_COURSES ''Astronaut'' = None"
    "map_of ROLE_ROADMAP ''Astronaut'' = None"
    by code_simp+
  from pm absent role_content_nonempty [of "''Astronaut''"] show ?thesis
    by blast
qed

subsection \<open>The heuristic salary\<close>

text \<open>The source's arithmetic, evaluated for every base of the table and every capped year count.\<close>

lemma adjust_900000:
  "list_all (\<lambda>m. experience_adjust 900000 m = Inr (rounded_salary 900000 m)) [0..10]"
  by code_simp

lemma adjust_700000:
  "list_all (\<lambda>m. experience_adjust 700000 m = Inr (rounded_salary 700000 m)) [0..10]"
  by code_simp

lemma adjust_500000:
  "list_all (\<lambda>m. experience_adjust 500000 m = Inr (rounded_salary 500000 m)) [0..10]"
  by code_simp

lemma adjust_600000:
  "list_all (\<lambda>m. experience_adjust 600000 m = Inr (rounded_salary 600000 m)) [0..10]"
  by code_simp

lemma adjust_1000000:
  "list_all (\<lambda>m. experience_adjust 1000000 m = Inr (rounded_salary 1000000 m)) [0..10]"
  by code_simp

lemma adjust_350000:
  "list_all (\<lambda>m. experience_adjust 350000 m = Inr (rounded_salary 350000 m)) [0..10]"
  by code_simp

lemma adjust_650000:
  "list_all (\<lambda>m. experience_adjust 650000 m = Inr (rounded_salary 650000 m)) [0..10]"
  by code_simp

lemma adjust_300000:
  "list_all (\<lambda>m. experience_adjust 300000 m = Inr (rounded_salary 300000 m)) [0..10]"
  by code_simp

lemma adjust_450000:
  "list_all (\<lambda>m. experience_adjust 450000 m = Inr (rounded_salary 450000 m)) [0..10]"
  by code_simp

lemma experience_adjust_known:
  assumes "b \<in> set known_bases" and "m \<in> set [0..10]"
  shows "experience_adjust b m = Inr (rounded_salary b m)"
proof -
  have "\<forall>m \<in> set [0..10]. experience_adjust b m = Inr (rounded_salary b m)"
    using assms(1) adjust_900000 adjust_700000 adjust_500000 adjust_600000 adjust_1000000
      adjust_350000 adjust_650000 adjust_300000 adjust_450000
    unfolding known_bases_def list_all_iff by auto
  with assms(2) show ?thesis by blast
qed

lemma experience_adjust_min: "experience_adjust b y = experience_adjust b (min y 10)"
  by (simp add: experience_adjust_def)

lemma base_salary_known: "base_salary role \<in> set known_bases"
  by (simp add: base_salary_def dict_get_def BASE_BY_ROLE_INR_def known_bases_def)

lemma heuristic_salary_closed:
  assumes "0 \<le> y"
  shows "heuristic_salary role y = Inr (rounded_salary (base_salary role) (min y 10))"
proof -
  from assms have "min y 10 \<in> set [0..10]" by auto
  then have "experience_adjust (base_salary role) (min y 10)
      = Inr (rounded_salary (base_salary role) (min y 10))"
    using base_salary_known by (rule experience_adjust_known [rotated])
  then show ?thesis
    unfolding heuristic_salary_def by (subst experience_adjust_min) simp
qed

lemma rounded_salary_mono:
  assumes "b \<in> set known_bases" and "0 \<le> m1" and "m1 \<le> m2"
  shows "rounded_salary b m1 \<le> rounded_salary b m2"
  using assms unfolding known_bases_def rounded_salary_def exact_salary_def
  by (auto split: if_splits)

text \<open>
  C3. For every target role and every \<open>y \<ge> 0\<close> the heuristic salary is
  \<open>int(base * (1 + min(y, 10) * 0.06))\<close> as the source evaluates it: the three
  float operations succeed and the result is the truncation of their product, with the
  base taken from the table and 450000 for a role the table lacks. In integers that is
  \<open>rounded_salary\<close>. For "Product Manager" and 10 years it is 1600000.
\<close>

theorem heuristic_salary_formula:
  assumes "0 \<le> y"
  shows "(\<exists>t f s. int_mul_float (min y 10) (float_literal 6 100) = Inr t
            \<and> int_add_float 1 t = Inr f
            \<and> int_mul_float (base_salary role) f = Inr s
            \<and> heuristic_salary role y = int_of_float s)
     \<and> heuristic_salary role y = Inr (rounded_salary (base_salary role) (min y 10))
     \<and> (map_of BASE_BY_ROLE_INR role = None \<longrightarrow> base_salary role = 450000)
     \<and> (\<forall>b. map_of BASE_BY_ROLE_INR role = Some b \<longrightarrow> base_salary role = b)
     \<and> heuristic_salary ''Product Manager'' 10 = Inr 1600000"
proof -
  have closed: "heuristic_salary role y = Inr (rounded_salary (base_salary role) (min y 10))"
    using assms by (rule heuristic_salary_closed)
  then have steps: "\<exists>t f s. int_mul_float (min y 10) (float_literal 6 100) = Inr t
            \<and> int_add_float 1 t = Inr f
            \<and> int_mul_float (base_salary role) f = Inr s
            \<and> heuristic_salary role y = int_of_float s"
    unfolding heuristic_salary_def experience_adjust_def bind_exn_def
    by (auto split: sum.splits)
  have pm: "heuristic_salary ''Product Manager'' 10 = Inr 1600000"
    using heuristic_salary_closed [of 10 "''Product Manager''"]
    by (simp add: base_salary_def dict_get_def BASE_BY_ROLE_INR_def rounded_salary_def
        exact_salary_def)
  show ?thesis
    using closed steps pm by (simp add: base_salary_def dict_get_def)
qed

theorem heuristic_salary_formula_witness:
  "(0::int) \<le> 3 \<and> map_of BASE_BY_ROLE_INR ''Astronaut'' = None
   \<and> heuristic_salary ''Astronaut'' 3 = Inr 531000
   \<and> map_of BASE_BY_ROLE_INR ''Product Manager'' = Some 1000000
   \<and> heuristic_salary ''Product Manager'' 6 = Inr 1359999"
  using heuristic_salary_formula [of 3 "''Astronaut''"]
    heuristic_salary_formula [of 6 "''Product Manager''"]
  by (simp add: BASE_BY_ROLE_INR_def rounded_salary_def exact_salary_def)

text \<open>
  C7. For every target role the heuristic salary does not decrease when the years of
  experience grow, is the same for all years from 10 on, and in particular agrees at 10
  and 15 years.
\<close>

theorem heuristic_salary_monotone:
  assumes "0 \<le> y1" and "y1 \<le> y2"
  shows "(\<exists>s1 s2. heuristic_salary role y1 = Inr s1 \<and> heuristic_salary role y2 = Inr s2
            \<and> s1 \<le> s2)
     \<and> (10 \<le> y1 \<longrightarrow> heuristic_salary role y2 = heuristic_salary role y1)
     \<and> heuristic_salary role 10 = heuristic_salary role 15"
proof -
  from assms have y2: "0 \<le> y2" by simp
  have "rounded_salary (base_salary role) (min y1 10)
      \<le> rounded_salary (base_salary role) (min y2 10)"
    using base_salary_known assms by (intro rounded_salary_mono) auto
  then have mono: "\<exists>s1 s2. heuristic_salary role y1 = Inr s1
      \<and> heuristic_salary role y2 = Inr s2 \<and> s1 \<le> s2"
    using heuristic_salary_closed [OF assms(1)] heuristic_salary_closed [OF y2] by simp
  have cap: "10 \<le> y1 \<longrightarrow> heuristic_salary role y2 = heuristic_salary role y1"
  proof
    assume "10 \<le> y1"
    with assms have "min y1 10 = 10" and "min y2 10 = 10" by auto
    then show "heuristic_salary role y2 = heuristic_salary role y1"
      using heuristic_salary_closed [OF assms(1), of role] heuristic_salary_closed [OF y2, of role]
      by simp
  qed
  have "heuristic_salary role 10 = heuristic_salary role 15"
    using heuristic_salary_closed [of 10 role] heuristic_salary_closed [of 15 role] by simp
  with mono cap show ?thesis by blast
qed

theorem heuristic_salary_monotone_witness:
  "(0::int) \<le> 5 \<and> (5::int) \<le> 6
   \<and> heuristic_salary ''Product Manager'' 5 = Inr 1300000
   \<and> heuristic_salary ''Product Manager'' 6 = Inr 1359999
   \<and> (10::int) \<le> 12 \<and> (12::int) \<le> 40
   \<and> heuristic_salary ''Product Manager'' 40 = heuristic_salary ''Product Manager'' 12"
  using heuristic_salary_monotone [of 5 6 "''Product Manager''"]
    heuristic_salary_monotone [of 12 40 "''Product Manager''"]
    heuristic_salary_closed [of 5 "''Product Manager''"]
    heuristic_salary_closed [of 6 "''Product Manager''"]
  by (simp add: base_salary_def dict_get_def BASE_BY_ROLE_INR_def rounded_salary_def
      exact_salary_def)

subsection \<open>The salary feature row\<close>



lemma map_of_dict_set: "map_of (dict_set X k v) = (map_of X)(k \<mapsto> v)"
  by (induction X k v rule: dict_set.induct) auto



lemma build_salary_row_map_of:
  "map_of (build_salary_row reg p fs X) f =
     (if f \<in> set fs \<and> f \<noteq> ''estimated_salary_usd'' then Some (salary_feature reg p f)
      else map_of X f)"
  by (induction fs arbitrary: X) (auto simp: map_of_dict_set)

lemma encode_or_zero_failure:
  "map_of (encoders reg) name = None
     \<or> (\<exists>enc. map_of (encoders reg) name = Some enc
          \<and> (\<not> enc_truthy enc \<or> (\<exists>e. bind_exn (transform0 enc v) to_int = Inl e)))
   \<Longrightarrow> encode_or_zero reg name v = 0"
  by (auto simp: encode_or_zero_def split: option.splits sum.splits)



subsection \<open>Salary resolution\<close>

lemma heuristic_salary_total: "0 \<le> y \<Longrightarrow> \<exists>h. heuristic_salary role y = Inr h"
  using heuristic_salary_closed by blast

lemma resolve_salary_heuristic:
  assumes "model_salary reg p = Inr None"
    and "heuristic_salary (target_job p) (years_exp p) = Inr h"
  shows "resolve_salary reg p = Inr (HeuristicSalary h)"
  using assms by (simp add: resolve_salary_def bind_exn_def)


lemma model_salary_total:
  "obj_truthy (salary_model reg) = Inr b \<Longrightarrow> \<exists>ms. model_salary reg p = Inr ms"
  by (auto simp: model_salary_def obj_truthy_def bind_exn_def split: option.splits)



lemma resolve_salary_cases:
  assumes "0 \<le> years_exp p" and "obj_truthy (salary_model reg) = Inr b"
  shows "(\<exists>s. model_salary reg p = Inr (Some s)
            \<and> resolve_salary reg p = Inr (ModelDerivedSalary s))
     \<or> (\<exists>h. model_salary reg p = Inr None
           \<and> heuristic_salary (target_job p) (years_exp p) = Inr h
           \<and> resolve_salary reg p = Inr (HeuristicSalary h))"
proof -
  obtain ms where ms: "model_salary reg p = Inr ms"
    using model_salary_total [OF assms(2)] by blast
  show ?thesis
  proof (cases ms)
    case None
    with ms heuristic_salary_total [OF assms(1), of "target_job p"] resolve_salary_heuristic
    show ?thesis by blast
  next
    case (Some s)
    with ms show ?thesis by (simp add: resolve_salary_def bind_exn_def)
  qed
qed




text \<open>
  C8. With a truthy salary model, a non-empty schema and a truthy scaler whose transform
  raises, the resolved salary is model-derived: the model's prediction on the unscaled
  row, times the conversion constant 82.0, truncated. It is what the same registry
  without a scaler resolves.
\<close>

theorem scaler_failure_proceeds_unscaled:
  assumes "salary_model reg = Some m" and "truthy m = Inr True"
    and "feat_salary reg = Some fs" and "fs \<noteq> []"
    and "scaler reg = Some sc" and "truthy sc = Inr True"
    and "transform_frame sc (make_frame (build_salary_row reg p fs [])) = Inl e"
    and "predict0 m (make_frame (build_salary_row reg p fs [])) = Inr v"
    and "to_float v = Inr salary_usd"
    and "int_of_float (fmul salary_usd USD_TO_INR) = Inr s"
  shows "resolve_salary reg p = Inr (ModelDerivedSalary s)
     \<and> resolve_salary reg p = resolve_salary (reg\<lparr>scaler := None\<rparr>) p"
proof -
  have row: "build_salary_row (reg\<lparr>scaler := None\<rparr>) p fs X = build_salary_row reg p fs X" for X
    by (induction fs arbitrary: X) (simp_all add: salary_feature_def encode_or_zero_def)
  have "apply_scaler reg (make_frame (build_salary_row reg p fs []))
      = Inr (make_frame (build_salary_row reg p fs []))"
    using assms(5,6,7) by (simp add: apply_scaler_def bind_exn_def)
  then have "model_salary reg p = Inr (Some s)"
    using assms by (simp add: model_salary_def bind_exn_def)
  moreover have "model_salary (reg\<lparr>scaler := None\<rparr>) p = Inr (Some s)"
    using assms by (simp add: model_salary_def bind_exn_def apply_scaler_def row)
  ultimately show ?thesis
    by (simp add: resolve_salary_def bind_exn_def)
qed

theorem scaler_failure_proceeds_unscaled_witness:
  "salary_model scaler_raises_registry = Some years_model \<and> truthy years_model = Inr True
   \<and> feat_salary scaler_raises_registry = Some [''years_of_experience'']
   \<and> scaler scaler_raises_registry = Some raising_artifact
   \<and> truthy raising_artifact = Inr True
   \<and> transform_frame raising_artifact
        (make_frame (build_salary_row scaler_raises_registry sample_profile
           [''years_of_experience''] []))
       = Inl (OtherError ''transform'')
   \<and> predict0 years_model
        (make_frame (build_salary_row scaler_raises_registry sample_profile
           [''years_of_experience''] []))
       = Inr (number_val 50000 ''?'')
   \<and> to_float (number_val 50000 ''?'') = Inr (Fin 6871947673600000 (- 37))
   \<and> int_of_float (fmul (Fin 6871947673600000 (- 37)) USD_TO_INR) = Inr 4100000
   \<and> resolve_salary scaler_raises_registry sample_profile = Inr (ModelDerivedSalary 4100000)"
proof -
  have reg: "salary_model scaler_raises_registry = Some years_model"
    "truthy years_model = Inr True"
    "feat_salary scaler_raises_registry = Some [''years_of_experience'']"
    "[''years_of_experience''] \<noteq> []"
    "scaler scaler_raises_registry = Some raising_artifact"
    "truthy raising_artifact = Inr True"
    by (simp_all add: scaler_raises_registry_def no_artifacts_def years_model_def
        raising_artifact_def)
  have scale: "transform_frame raising_artifact
        (make_frame (build_salary_row scaler_raises_registry sample_profile
           [''years_of_experience''] []))
       = Inl (OtherError ''transform'')"
    by (simp add: raising_artifact_def)
  have pred: "predict0 years_model
        (make_frame (build_salary_row scaler_raises_registry sample_profile
           [''years_of_experience''] []))
       = Inr (number_val 50000 ''?'')"
    by (simp add: years_model_def raising_artifact_def make_frame_def salary_feature_def
        sample_profile_def)
  have fl: "to_float (number_val 50000 ''?'') = Inr (Fin 6871947673600000 (- 37))"
    by code_simp
  have conv: "int_of_float (fmul (Fin 6871947673600000 (- 37)) USD_TO_INR) = Inr 4100000"
    by code_simp
  from reg scale pred fl conv
    scaler_failure_proceeds_unscaled [OF reg(1,2,3,4,5,6) scale pred fl conv]
  show ?thesis by simp
qed

subsection \<open>Runs\<close>

lemma quick_status_tests:
  "quick_status reg = Inr marks
     \<Longrightarrow> \<exists>a b c. obj_truthy (salary_model reg) = Inr a
           \<and> obj_truthy (career_model reg) = Inr b \<and> obj_truthy (scaler reg) = Inr c"
  by (auto simp: quick_status_def bind_exn_def split: sum.splits)


lemma career_preview_total:
  "obj_truthy (career_model reg) = Inr b \<Longrightarrow> \<exists>s. career_preview reg p = Inr s"
  by (auto simp: career_preview_def obj_truthy_def bind_exn_def split: option.splits)

lemma run_analysis_report:
  assumes "run_analysis reg True p = Inr (Report r)"
  shows "recommended_role r = target_job p
     \<and> resolve_salary reg (accept_certifications p) = Inr (salary r)
     \<and> career_preview reg (accept_certifications p) = Inr (model_suggestion r)"
proof -
  have t: "target_job (accept_certifications p) = target_job p"
    by (simp add: accept_certifications_def)
  from assms show ?thesis
    by (auto simp: run_analysis_def Let_def bind_exn_def t split: if_splits sum.splits)
qed

lemma run_report:
  assumes "validation_errors p = []" and "0 \<le> years_exp p"
    and "quick_status reg = Inr marks"
  shows "\<exists>r. run_analysis reg True p = Inr (Report r)"
proof -
  let ?p = "accept_certifications p"
  have y: "0 \<le> years_exp ?p"
    using assms(2) by (simp add: accept_certifications_def)
  obtain a b where tests: "obj_truthy (salary_model reg) = Inr a"
    "obj_truthy (career_model reg) = Inr b"
    using quick_status_tests [OF assms(3)] by blast
  obtain s where s: "resolve_salary reg ?p = Inr s"
    using resolve_salary_cases [OF y tests(1)] by auto
  obtain sg where sg: "career_preview reg ?p = Inr sg"
    using career_preview_total [OF tests(2)] by blast
  obtain g where g: "skill_gaps_lookup (target_job ?p) = Inr g"
    using skill_gaps_lookup_total by blast
  obtain c where c: "courses_lookup (target_job ?p) = Inr (Some c)"
    using courses_lookup_total by blast
  obtain rm st where rm: "roadmap_lookup (target_job ?p) = Inr rm" "roadmap_stages rm = Inr st"
    using roadmap_lookup_total by blast
  show ?thesis
    using assms(1,3) s sg g c rm by (simp add: run_analysis_def Let_def bind_exn_def)
qed

lemma run_analysis_accept:
  assumes "certifications p = ''Select...''"
  shows "run_analysis reg analyze p = run_analysis reg analyze (p\<lparr>certifications := ''None''\<rparr>)"
proof -
  have "validation_errors (p\<lparr>certifications := ''None''\<rparr>) = validation_errors p"
    by (simp add: validation_errors_def)
  moreover have "accept_certifications (p\<lparr>certifications := ''None''\<rparr>)
      = accept_certifications p"
    using assms by (simp add: accept_certifications_def)
  ultimately show ?thesis
    by (simp add: run_analysis_def)
qed

lemma build_career_row_map_of:
  assumes "build_career_row reg p fs X = Inr Xin" and "career_feature reg p f = Inr v"
    and "f \<in> set fs \<or> map_of X f = Some v"
  shows "map_of Xin f = Some v"
  using assms
proof (induction fs arbitrary: X)
  case Nil
  then show ?case by simp
next
  case (Cons feat feats)
  from Cons.prems(1) obtain v' where v': "career_feature reg p feat = Inr v'"
    and rest: "build_career_row reg p feats (dict_set X feat v') = Inr Xin"
    by (auto simp: bind_exn_def split: sum.splits)
  have "f \<in> set feats \<or> map_of (dict_set X feat v') f = Some v"
    using Cons.prems(2,3) v' by (auto simp: map_of_dict_set)
  with Cons.IH [OF rest Cons.prems(2)] show ?case .
qed

text \<open>
  C10. If certifications is left at \<open>"Select..."\<close> and every other selector is chosen,
  validation reports nothing and the field becomes \<open>"None"\<close>: the run is the run of
  the same profile with \<open>"None"\<close> chosen. It is not rejected; the salary and the
  suggestion of its report are resolved from the profile with \<open>"None"\<close>; and it does
  produce a report when the years of experience are not negative and the truth tests of
  the status list do not raise. For that profile the certifications feature is 0, in
  the salary row of any schema that names it and in any career row that names it.
\<close>

theorem certifications_placeholder_accepted:
  assumes "certifications p = ''Select...''"
    and "current_job p \<noteq> ''Select current job''" and "target_job p \<noteq> ''Select target job''"
    and "education p \<noteq> ''Select education''" and "portfolio_strength p \<noteq> ''Select...''"
    and "language_proficiency p \<noteq> ''Select...''" and "remote_pref p \<noteq> ''Select...''"
  shows "validation_errors p = []
     \<and> accept_certifications p = p\<lparr>certifications := ''None''\<rparr>
     \<and> run_analysis reg True p = run_analysis reg True (p\<lparr>certifications := ''None''\<rparr>)
     \<and> (\<forall>errs. run_analysis reg True p \<noteq> Inr (Rejected errs))
     \<and> (\<forall>r. run_analysis reg True p = Inr (Report r)
          \<longrightarrow> resolve_salary reg (p\<lparr>certifications := ''None''\<rparr>) = Inr (salary r)
            \<and> career_preview reg (p\<lparr>certifications := ''None''\<rparr>) = Inr (model_suggestion r))
     \<and> (\<forall>marks. 0 \<le> years_exp p \<and> quick_status reg = Inr marks
          \<longrightarrow> (\<exists>r. run_analysis reg True p = Inr (Report r)))
     \<and> salary_feature reg (p\<lparr>certifications := ''None''\<rparr>) ''certifications'' = 0
     \<and> (''certifications'' \<in> set schema
          \<longrightarrow> map_of (build_salary_row reg (p\<lparr>certifications := ''None''\<rparr>) schema [])
                ''certifications'' = Some 0)
     \<and> (\<forall>Xin. ''certifications'' \<in> set schema
            \<and> build_career_row reg (p\<lparr>certifications := ''None''\<rparr>) schema [] = Inr Xin
          \<longrightarrow> map_of Xin ''certifications'' = Some 0)"
proof -
  let ?p = "p\<lparr>certifications := ''None''\<rparr>"
  have errs: "validation_errors p = []"
    using assms by (simp add: validation_errors_def)
  have acc: "accept_certifications p = ?p"
    using assms(1) by (simp add: accept_certifications_def)
  have same: "run_analysis reg True p = run_analysis reg True ?p"
    using assms(1) by (rule run_analysis_accept)
  have not_rejected: "\<forall>errs. run_analysis reg True p \<noteq> Inr (Rejected errs)"
    using errs by (auto simp: run_analysis_def Let_def bind_exn_def split: sum.splits)
  have fields: "\<forall>r. run_analysis reg True p = Inr (Report r)
          \<longrightarrow> resolve_salary reg ?p = Inr (salary r)
            \<and> career_preview reg ?p = Inr (model_suggestion r)"
    using run_analysis_report [of reg p] by (simp add: acc)
  have report: "\<forall>marks. 0 \<le> years_exp p \<and> quick_status reg = Inr marks
          \<longrightarrow> (\<exists>r. run_analysis reg True p = Inr (Report r))"
    using run_report [OF errs] by blast
  have feat: "salary_feature reg ?p ''certifications'' = 0"
    by (simp add: salary_feature_def)
  have row: "''certifications'' \<in> set schema
          \<longrightarrow> map_of (build_salary_row reg ?p schema []) ''certifications'' = Some 0"
    using feat by (simp add: build_salary_row_map_of)
  have cfeat: "career_feature reg ?p ''certifications'' = Inr 0"
    by (simp add: career_feature_def)
  have career: "\<forall>Xin. ''certifications'' \<in> set schema
            \<and> build_career_row reg ?p schema [] = Inr Xin
          \<longrightarrow> map_of Xin ''certifications'' = Some 0"
    using build_career_row_map_of [OF _ cfeat] by blast
  show ?thesis
    by (intro conjI errs acc same not_rejected fields report feat row career)
qed

theorem certifications_placeholder_accepted_witness:
  "certifications cert_unselected = ''Select...''
   \<and> validation_errors cert_unselected = []
   \<and> accept_certifications cert_unselected = sample_profile\<lparr>certifications := ''None''\<rparr>
   \<and> (0::int) \<le> years_exp cert_unselected
   \<and> quick_status certs_model_registry = Inr [True, False, False, True, False]
   \<and> map_option salary (reported (run_analysis certs_model_registry True cert_unselected))
       = Some (ModelDerivedSalary 82000)
   \<and> resolve_salary certs_model_registry (sample_profile\<lparr>certifications := ''None''\<rparr>)
       = Inr (ModelDerivedSalary 82000)
   \<and> resolve_salary certs_model_registry cert_unselected = Inr (ModelDerivedSalary 164000)
   \<and> ''certifications'' \<in> set sample_schema
   \<and> build_salary_row certs_model_registry (sample_profile\<lparr>certifications := ''None''\<rparr>)
        sample_schema []
       = [(''years_of_experience'', 10), (''current_job_title'', 0), (''certifications'', 0),
          (''skill_count'', 0)]
   \<and> build_career_row certs_model_registry (sample_profile\<lparr>certifications := ''None''\<rparr>)
        sample_schema []
       = Inr [(''years_of_experience'', 10), (''estimated_salary_usd'', 0),
              (''current_job_title'', 0), (''certifications'', 0), (''skill_count'', 0)]"
proof -
  have hyps: "certifications cert_unselected = ''Select...''"
    "current_job cert_unselected \<noteq> ''Select current job''"
    "target_job cert_unselected \<noteq> ''Select target job''"
    "education cert_unselected \<noteq> ''Select education''"
    "portfolio_strength cert_unselected \<noteq> ''Select...''"
    "language_proficiency cert_unselected \<noteq> ''Select...''"
    "remote_pref cert_unselected \<noteq> ''Select...''"
    by (simp_all add: cert_unselected_def sample_profile_def)
  note inst = certifications_placeholder_accepted [OF hyps, of certs_model_registry sample_schema]
  have upd: "cert_unselected\<lparr>certifications := ''None''\<rparr>
      = sample_profile\<lparr>certifications := ''None''\<rparr>"
    by (simp add: cert_unselected_def)
  have acc: "accept_certifications cert_unselected = sample_profile\<lparr>certifications := ''None''\<rparr>"
    using inst [THEN conjunct2, THEN conjunct1] by (simp add: upd)
  have evals: "(0::int) \<le> years_exp cert_unselected"
    "quick_status certs_model_registry = Inr [True, False, False, True, False]"
    "map_option salary (reported (run_analysis certs_model_registry True cert_unselected))
       = Some (ModelDerivedSalary 82000)"
    "resolve_salary certs_model_registry (sample_profile\<lparr>certifications := ''None''\<rparr>)
       = Inr (ModelDerivedSalary 82000)"
    "resolve_salary certs_model_registry cert_unselected = Inr (ModelDerivedSalary 164000)"
    "''certifications'' \<in> set sample_schema"
    "build_salary_row certs_model_registry (sample_profile\<lparr>certifications := ''None''\<rparr>)
        sample_schema []
       = [(''years_of_experience'', 10), (''current_job_title'', 0), (''certifications'', 0),
          (''skill_count'', 0)]"
    "build_career_row certs_model_registry (sample_profile\<lparr>certifications := ''None''\<rparr>)
        sample_schema []
       = Inr [(''years_of_experience'', 10), (''estimated_salary_usd'', 0),
              (''current_job_title'', 0), (''certifications'', 0), (''skill_count'', 0)]"
    by code_simp+
  show ?thesis
    by (intro conjI hyps(1) inst [THEN conjunct1] acc evals)
qed

subsection \<open>The career suggestion preview\<close>











end
